theory Spec2Isabelle
  imports Main
begin

section \<open>runfx: the lifecycle runner of \<^verbatim>\<open>runfx.go\<close>\<close>

text \<open>
  The package has two entry points, \<^verbatim>\<open>Run\<close> and \<^verbatim>\<open>RunAndExit\<close>, over an
  application descriptor (\<^verbatim>\<open>FxOpts\<close>) whose hooks and whose fx application are
  external collaborators. The model takes the collaborators' answers as data and
  embeds the control flow of the two functions: which calls are made, in which
  order, and what is returned or how the process ends.
\<close>

subsection \<open>Errors\<close>

text \<open>
  \<^verbatim>\<open>os.Signal\<close> is an interface value; only its \<^verbatim>\<open>String()\<close> is ever used (by the
  \<^verbatim>\<open>%s\<close> verb). A nil interface is \<open>None\<close>.
\<close>

datatype os_Signal = os_Signal string

text \<open>
  The Go \<^verbatim>\<open>error\<close> values that occur: the package's own \<^verbatim>\<open>ExitError\<close> struct
  (fields \<^verbatim>\<open>ExitCode\<close>, \<^verbatim>\<open>Signal\<close>), the value built by
  \<^verbatim>\<open>fmt.Errorf("<prefix>%w", err)\<close> (a message prefix and the wrapped error, which
  \<^verbatim>\<open>Unwrap\<close> gives back), and any other error of a collaborator, of which only the
  message matters. A nil \<^verbatim>\<open>error\<close> is \<open>None\<close> of \<open>err option\<close>.
\<close>

datatype err =
    ExitError int "os_Signal option"
  | Errorf string err
  | Other string

text \<open>Decimal digits, as the \<^verbatim>\<open>%d\<close> verb prints a Go \<^verbatim>\<open>int\<close>.\<close>

fun show_nat :: "nat \<Rightarrow> string" where
  "show_nat n =
     (if n < 10 then [''0123456789'' ! n]
      else show_nat (n div 10) @ [''0123456789'' ! (n mod 10)])"

declare show_nat.simps [simp del]

definition show_int :: "int \<Rightarrow> string" where
  "show_int i = (if i < 0 then ''-'' @ show_nat (nat (- i)) else show_nat (nat i))"

text \<open>The \<^verbatim>\<open>%s\<close> verb on an \<^verbatim>\<open>os.Signal\<close>: its \<^verbatim>\<open>String()\<close>, and fmt's nil marker.\<close>

fun show_Signal :: "os_Signal option \<Rightarrow> string" where
  "show_Signal None = ''%!s(<nil>)''"
| "show_Signal (Some (os_Signal name)) = name"

text \<open>
  \<^verbatim>\<open>fmt.Sprintf("exit: code=%d signal=%s", ...)\<close>, used by \<^verbatim>\<open>ExitError.Error\<close> and by
  the \<^verbatim>\<open>log.Printf\<close> of \<^verbatim>\<open>RunAndExit\<close>.
\<close>

definition exit_message :: "int \<Rightarrow> os_Signal option \<Rightarrow> string" where
  "exit_message code signal = ''exit: code='' @ show_int code @ '' signal='' @ show_Signal signal"

text \<open>The \<^verbatim>\<open>Error()\<close> method.\<close>

fun Error :: "err \<Rightarrow> string" where
  "Error (ExitError code signal) = exit_message code signal"
| "Error (Errorf prefix e) = prefix @ Error e"
| "Error (Other msg) = msg"

text \<open>
  \<^verbatim>\<open>errors.As(err, &exitErr)\<close> with a target of type \<^verbatim>\<open>ExitError\<close>: the first error of
  the \<^verbatim>\<open>Unwrap\<close> chain that is an \<^verbatim>\<open>ExitError\<close>, if any.
\<close>

fun errors_As :: "err \<Rightarrow> (int \<times> os_Signal option) option" where
  "errors_As (ExitError code signal) = Some (code, signal)"
| "errors_As (Errorf prefix e) = errors_As e"
| "errors_As (Other msg) = None"

subsection \<open>The collaborators\<close>

text \<open>
  A \<^verbatim>\<open>context.Context\<close>: the caller's root context, and what
  \<^verbatim>\<open>context.WithTimeout(parent, d)\<close> derives from one. A \<^verbatim>\<open>time.Duration\<close> is an
  integer count of nanoseconds.
\<close>

datatype Context = Background | WithTimeout Context int

text \<open>\<^verbatim>\<open>fx.ShutdownSignal\<close>, the value received from the channel of \<^verbatim>\<open>fxApp.Wait()\<close>.\<close>

record ShutdownSignal =
  ExitCode :: int
  Signal :: "os_Signal option"

text \<open>
  \<^verbatim>\<open>*fx.App\<close>, as far as \<^verbatim>\<open>Run\<close> uses it. \<open>Wait\<close> is \<open>None\<close> when the channel never
  delivers a value: the receive then blocks forever.
\<close>

record App =
  Err :: "err option"
  StartTimeout :: int
  StopTimeout :: int
  Start :: "Context \<Rightarrow> err option"
  Wait :: "ShutdownSignal option"
  Stop :: "Context \<Rightarrow> err option"

text \<open>
  \<^verbatim>\<open>FxOpts\<close>. The type assertions \<^verbatim>\<open>fxOpts.(SetDefaulter)\<close> and
  \<^verbatim>\<open>fxOpts.(Validator)\<close> succeed when the field is \<open>Some r\<close>, and \<open>r\<close> is what the
  method then returns. \<open>Fx\<close> stands for \<^verbatim>\<open>fx.New(fxOpts.Fx())\<close>: the option is
  identified with the application that fx builds from it.
\<close>

record FxOpts =
  SetDefaults :: "err option option"
  Validate :: "err option option"
  Fx :: App

subsection \<open>Observable calls\<close>

text \<open>
  The calls \<^verbatim>\<open>Run\<close> makes on its collaborators, in the order it makes them. The two
  \<^verbatim>\<open>context.WithTimeout\<close> calls and the two cancel functions they return are told
  apart by the phase they belong to.
\<close>

datatype event =
    CallSetDefaults
  | CallValidate
  | CallNew
  | StartCtxCreated
  | CallStart Context
  | StartCancel
  | CallWait
  | StopCtxCreated
  | CallStop Context
  | StopCancel

text \<open>A function either returns a value or blocks forever.\<close>

datatype 'a completion = Returns 'a | Blocks

text \<open>An optional hook: skipped when the type assertion fails, called otherwise.\<close>

fun call_hook :: "event \<Rightarrow> err option option \<Rightarrow> event list \<times> err option" where
  "call_hook ev None = ([], None)"
| "call_hook ev (Some r) = ([ev], r)"

subsection \<open>Run\<close>

text \<open>
  \<^verbatim>\<open>Run\<close>, statement by statement. The result is the trace of calls and the returned
  \<^verbatim>\<open>error\<close>. The deferred \<^verbatim>\<open>startCancel()\<close> and \<^verbatim>\<open>stopCancel()\<close> run when the
  function returns, last deferred first; they do not run while it is blocked in
  the receive from \<^verbatim>\<open>fxApp.Wait()\<close>.
\<close>

definition Run :: "Context \<Rightarrow> FxOpts \<Rightarrow> event list \<times> err option completion" where
  "Run ctx fxOpts =
    (case call_hook CallSetDefaults (SetDefaults fxOpts) of
       (t1, Some err) \<Rightarrow> (t1, Returns (Some (Errorf ''set defaults: '' err)))
     | (t1, None) \<Rightarrow>
    (case call_hook CallValidate (Validate fxOpts) of
       (t2, Some err) \<Rightarrow> (t1 @ t2, Returns (Some (Errorf ''validate: '' err)))
     | (t2, None) \<Rightarrow>
    (let fxApp = Fx fxOpts;
         t3 = t1 @ t2 @ [CallNew]
     in case Err fxApp of
       Some err \<Rightarrow> (t3, Returns (Some (Errorf ''fx.New: '' err)))
     | None \<Rightarrow>
    (let startCtx = WithTimeout ctx (StartTimeout fxApp);
         t4 = t3 @ [StartCtxCreated, CallStart startCtx]
     in case Start fxApp startCtx of
       Some err \<Rightarrow> (t4 @ [StartCancel], Returns (Some (Errorf ''fx.Start: '' err)))
     | None \<Rightarrow>
    (case Wait fxApp of
       None \<Rightarrow> (t4 @ [CallWait], Blocks)
     | Some sig \<Rightarrow>
    (let stopCtx = WithTimeout ctx (StopTimeout fxApp);
         t5 = t4 @ [CallWait, StopCtxCreated, CallStop stopCtx]
     in case Stop fxApp stopCtx of
       Some err \<Rightarrow>
         (t5 @ [StopCancel, StartCancel], Returns (Some (Errorf ''fx.Stop: '' err)))
     | None \<Rightarrow>
         if ExitCode sig \<noteq> 0
         then (t5 @ [StopCancel, StartCancel],
               Returns (Some (ExitError (ExitCode sig) (Signal sig))))
         else (t5 @ [StopCancel, StartCancel], Returns None)))))))"

subsection \<open>RunAndExit\<close>

text \<open>
  How the process ends: the lines handed to the \<^verbatim>\<open>log\<close> package (without the
  logger's own prefix) and the argument of \<^verbatim>\<open>os.Exit\<close>; or no exit at all, when
  \<^verbatim>\<open>Run\<close> never returns. \<^verbatim>\<open>log.Fatal(err)\<close> prints \<^verbatim>\<open>err.Error()\<close> and calls
  \<^verbatim>\<open>os.Exit(1)\<close>.
\<close>

datatype process_end = Exit "string list" int | NoExit

definition RunAndExit :: "Context \<Rightarrow> FxOpts \<Rightarrow> event list \<times> process_end" where
  "RunAndExit ctx fxOpts =
    (case Run ctx fxOpts of
       (t, Blocks) \<Rightarrow> (t, NoExit)
     | (t, Returns (Some err)) \<Rightarrow>
         (case errors_As err of
            Some (code, signal) \<Rightarrow> (t, Exit [exit_message code signal] code)
          | None \<Rightarrow> (t, Exit [Error err] 1))
     | (t, Returns None) \<Rightarrow> (t, Exit [] 0))"

subsection \<open>Vocabulary of the properties\<close>

text \<open>An optional hook lets \<^verbatim>\<open>Run\<close> go on: it is absent, or it returns nil.\<close>

definition hook_passes :: "err option option \<Rightarrow> bool" where
  "hook_passes h = (h = None \<or> h = Some None)"

text \<open>
  The Build phase is reached and succeeds: both optional hooks let \<^verbatim>\<open>Run\<close> go on
  and \<^verbatim>\<open>fxApp.Err()\<close> is nil.
\<close>

definition Build_succeeds :: "FxOpts \<Rightarrow> bool" where
  "Build_succeeds fxOpts =
     (hook_passes (SetDefaults fxOpts) \<and> hook_passes (Validate fxOpts) \<and> Err (Fx fxOpts) = None)"

text \<open>The sub-contexts \<^verbatim>\<open>Run\<close> derives, and what Start and Stop answer on them.\<close>

definition startCtx :: "Context \<Rightarrow> FxOpts \<Rightarrow> Context" where
  "startCtx ctx fxOpts = WithTimeout ctx (StartTimeout (Fx fxOpts))"

definition stopCtx :: "Context \<Rightarrow> FxOpts \<Rightarrow> Context" where
  "stopCtx ctx fxOpts = WithTimeout ctx (StopTimeout (Fx fxOpts))"

definition Start_result :: "Context \<Rightarrow> FxOpts \<Rightarrow> err option" where
  "Start_result ctx fxOpts = Start (Fx fxOpts) (startCtx ctx fxOpts)"

definition Stop_result :: "Context \<Rightarrow> FxOpts \<Rightarrow> err option" where
  "Stop_result ctx fxOpts = Stop (Fx fxOpts) (stopCtx ctx fxOpts)"

text \<open>The calls of the two optional phases.\<close>

definition hooks_trace :: "FxOpts \<Rightarrow> event list" where
  "hooks_trace fxOpts =
     fst (call_hook CallSetDefaults (SetDefaults fxOpts)) @
     fst (call_hook CallValidate (Validate fxOpts))"

fun is_CallStop :: "event \<Rightarrow> bool" where
  "is_CallStop (CallStop c) = True"
| "is_CallStop e = False"

text \<open>The prefixes with which \<^verbatim>\<open>Run\<close> tags the error of a phase.\<close>

definition phase_tags :: "string list" where
  "phase_tags = [''set defaults: '', ''validate: '', ''fx.New: '', ''fx.Start: '', ''fx.Stop: '']"

subsection \<open>Example applications\<close>

definition SIGTERM :: os_Signal where
  "SIGTERM = os_Signal ''terminated''"

text \<open>An application with no optional hook that starts, is told to stop with code 0, and stops.\<close>

definition clean_App :: App where
  "clean_App =
     \<lparr>Err = None, StartTimeout = 15000000000, StopTimeout = 15000000000,
      Start = (\<lambda>c. None), Wait = Some \<lparr>ExitCode = 0, Signal = None\<rparr>, Stop = (\<lambda>c. None)\<rparr>"

definition plain_opts :: FxOpts where
  "plain_opts = \<lparr>SetDefaults = None, Validate = None, Fx = clean_App\<rparr>"

text \<open>The same, ending with the given shutdown signal.\<close>

definition opts_exiting :: "int \<Rightarrow> os_Signal option \<Rightarrow> FxOpts" where
  "opts_exiting code signal =
     plain_opts\<lparr>Fx := clean_App\<lparr>Wait := Some \<lparr>ExitCode = code, Signal = signal\<rparr>\<rparr>\<rparr>"

text \<open>Stop fails after a shutdown signal with code 7.\<close>

definition failing_Stop_opts :: FxOpts where
  "failing_Stop_opts =
     plain_opts\<lparr>Fx := clean_App\<lparr>Wait := Some \<lparr>ExitCode = 7, Signal = None\<rparr>,
                              Stop := (\<lambda>c. Some (Other ''context deadline exceeded''))\<rparr>\<rparr>"

text \<open>Start fails, as it does when the start timeout is exceeded.\<close>

definition failing_Start_opts :: FxOpts where
  "failing_Start_opts =
     plain_opts\<lparr>Fx := clean_App\<lparr>Start := (\<lambda>c. Some (Other ''context deadline exceeded''))\<rparr>\<rparr>"

text \<open>A Stop hook whose error wraps an \<^verbatim>\<open>ExitError\<close>.\<close>

definition ExitError_Stop_opts :: FxOpts where
  "ExitError_Stop_opts =
     plain_opts\<lparr>Validate := Some None,
       Fx := clean_App\<lparr>Stop := (\<lambda>c. Some (Errorf ''drain: '' (ExitError 9 (Some SIGTERM))))\<rparr>\<rparr>"

lemmas example_defs =
  Build_succeeds_def hook_passes_def Start_result_def Stop_result_def startCtx_def stopCtx_def
  opts_exiting_def plain_opts_def clean_App_def SIGTERM_def hooks_trace_def

lemmas example_defs2 = example_defs failing_Stop_opts_def failing_Start_opts_def

lemmas message_defs = exit_message_def show_int_def show_nat.simps

section \<open>Properties\<close>

subsection \<open>The paths of \<^verbatim>\<open>Run\<close>\<close>

text \<open>
  Hooks and fx calls are taken to return: a hook that panics or never returns is
  outside the model. Only the receive from \<^verbatim>\<open>fxApp.Wait()\<close> may block.
\<close>

lemma call_hook_passes:
  "hook_passes h \<Longrightarrow> call_hook ev h = (fst (call_hook ev h), None)"
  by (auto simp: hook_passes_def)

text \<open>Every path of \<^verbatim>\<open>Run\<close> after a successful build, with its trace and its result.\<close>

lemma Run_from_build:
  assumes "Build_succeeds fxOpts"
  shows "Run ctx fxOpts =
    (case Start_result ctx fxOpts of
       Some err \<Rightarrow>
         (hooks_trace fxOpts @ [CallNew, StartCtxCreated, CallStart (startCtx ctx fxOpts), StartCancel],
          Returns (Some (Errorf ''fx.Start: '' err)))
     | None \<Rightarrow>
         (case Wait (Fx fxOpts) of
            None \<Rightarrow>
              (hooks_trace fxOpts @ [CallNew, StartCtxCreated, CallStart (startCtx ctx fxOpts), CallWait],
               Blocks)
          | Some sig \<Rightarrow>
              (hooks_trace fxOpts @
                 [CallNew, StartCtxCreated, CallStart (startCtx ctx fxOpts), CallWait,
                  StopCtxCreated, CallStop (stopCtx ctx fxOpts), StopCancel, StartCancel],
               Returns (case Stop_result ctx fxOpts of
                          Some err \<Rightarrow> Some (Errorf ''fx.Stop: '' err)
                        | None \<Rightarrow> if ExitCode sig \<noteq> 0
                                  then Some (ExitError (ExitCode sig) (Signal sig))
                                  else None))))"
proof -
  from assms have hd: "hook_passes (SetDefaults fxOpts)"
    and hv: "hook_passes (Validate fxOpts)"
    and e: "Err (Fx fxOpts) = None"
    by (simp_all add: Build_succeeds_def)
  note d = call_hook_passes [OF hd, of CallSetDefaults]
  note v = call_hook_passes [OF hv, of CallValidate]
  show ?thesis
    unfolding Run_def
    apply (subst d, subst v)
    apply (simp add: e Let_def hooks_trace_def Start_result_def Stop_result_def
        startCtx_def stopCtx_def split: option.splits)
    done
qed

text \<open>The optional phases add only their own two calls to the trace.\<close>

lemma set_hooks_trace: "set (hooks_trace fxOpts) \<subseteq> {CallSetDefaults, CallValidate}"
  by (cases "SetDefaults fxOpts"; cases "Validate fxOpts") (auto simp: hooks_trace_def)

lemma hooks_trace_no_Stop: "filter is_CallStop (hooks_trace fxOpts) = []"
  using set_hooks_trace [of fxOpts] by (auto simp: filter_empty_conv)

lemma hooks_trace_no_Wait: "CallWait \<notin> set (hooks_trace fxOpts)"
  using set_hooks_trace [of fxOpts] by auto

lemma Run_past_Wait:
  assumes "Build_succeeds fxOpts" "Start_result ctx fxOpts = None" "Wait (Fx fxOpts) = Some sig"
  shows "Run ctx fxOpts =
    (hooks_trace fxOpts @
       [CallNew, StartCtxCreated, CallStart (startCtx ctx fxOpts), CallWait,
        StopCtxCreated, CallStop (stopCtx ctx fxOpts), StopCancel, StartCancel],
     Returns (case Stop_result ctx fxOpts of
                Some err \<Rightarrow> Some (Errorf ''fx.Stop: '' err)
              | None \<Rightarrow> if ExitCode sig \<noteq> 0
                        then Some (ExitError (ExitCode sig) (Signal sig))
                        else None))"
  using Run_from_build [OF assms(1), of ctx] assms(2,3) by simp

lemma Run_Start_fails:
  assumes "Build_succeeds fxOpts" "Start_result ctx fxOpts = Some err"
  shows "Run ctx fxOpts =
    (hooks_trace fxOpts @ [CallNew, StartCtxCreated, CallStart (startCtx ctx fxOpts), StartCancel],
     Returns (Some (Errorf ''fx.Start: '' err)))"
  using Run_from_build [OF assms(1), of ctx] assms(2) by simp

text \<open>An error that \<^verbatim>\<open>Run\<close> builds with \<^verbatim>\<open>fmt.Errorf\<close> carries one of the five phase prefixes.\<close>

lemma Run_tag:
  assumes "snd (Run ctx fxOpts) = Returns (Some (Errorf tag cause))"
  shows "tag \<in> set phase_tags"
proof -
  obtain t1 r1 where d: "call_hook CallSetDefaults (SetDefaults fxOpts) = (t1, r1)"
    by (cases "call_hook CallSetDefaults (SetDefaults fxOpts)")
  obtain t2 r2 where v: "call_hook CallValidate (Validate fxOpts) = (t2, r2)"
    by (cases "call_hook CallValidate (Validate fxOpts)")
  from assms show ?thesis
    unfolding Run_def d v
    by (simp add: Let_def phase_tags_def split: option.splits if_splits)
qed

text \<open>How \<^verbatim>\<open>RunAndExit\<close> ends the process, read off the result of \<^verbatim>\<open>Run\<close>.\<close>

lemma RunAndExit_of_Run:
  "snd (RunAndExit ctx fxOpts) =
     (case snd (Run ctx fxOpts) of
        Blocks \<Rightarrow> NoExit
      | Returns None \<Rightarrow> Exit [] 0
      | Returns (Some err) \<Rightarrow>
          (case errors_As err of
             Some (code, signal) \<Rightarrow> Exit [exit_message code signal] code
           | None \<Rightarrow> Exit [Error err] 1))"
  by (cases "Run ctx fxOpts")
     (simp add: RunAndExit_def split: completion.splits option.splits prod.splits)

subsection \<open>Resolving the outcome\<close>

text \<open>
  Claim C1, as amended. When Start succeeded, Wait delivered a termination signal
  and Stop succeeded, \<^verbatim>\<open>Run\<close> returns nil (Success) when the signal's exit code is 0,
  whether or not an OS signal is present, and \<^verbatim>\<open>ExitError{code, signal}\<close> when the
  exit code is not 0. Only \<^verbatim>\<open>sig.ExitCode != 0\<close> is tested.
\<close>

theorem Run_resolve:
  assumes "Build_succeeds fxOpts" "Start_result ctx fxOpts = None"
    "Wait (Fx fxOpts) = Some sig" "Stop_result ctx fxOpts = None"
  shows "snd (Run ctx fxOpts) =
    Returns (if ExitCode sig = 0 then None else Some (ExitError (ExitCode sig) (Signal sig)))"
  using Run_past_Wait [OF assms(1-3)] assms(4) by simp

theorem Run_resolve_witness:
  "Build_succeeds (opts_exiting 2 (Some SIGTERM)) \<and>
   Start_result Background (opts_exiting 2 (Some SIGTERM)) = None \<and>
   Wait (Fx (opts_exiting 2 (Some SIGTERM))) = Some \<lparr>ExitCode = 2, Signal = Some SIGTERM\<rparr> \<and>
   Stop_result Background (opts_exiting 2 (Some SIGTERM)) = None \<and>
   snd (Run Background (opts_exiting 2 (Some SIGTERM))) = Returns (Some (ExitError 2 (Some SIGTERM))) \<and>
   Build_succeeds plain_opts \<and>
   Start_result Background plain_opts = None \<and>
   Wait (Fx plain_opts) = Some \<lparr>ExitCode = 0, Signal = None\<rparr> \<and>
   Stop_result Background plain_opts = None \<and>
   snd (Run Background plain_opts) = Returns None"
proof -
  let ?a = "opts_exiting 2 (Some SIGTERM)"
  have a: "Build_succeeds ?a" "Start_result Background ?a = None"
    "Wait (Fx ?a) = Some \<lparr>ExitCode = 2, Signal = Some SIGTERM\<rparr>"
    "Stop_result Background ?a = None"
    by (simp_all add: example_defs)
  have b: "Build_succeeds plain_opts" "Start_result Background plain_opts = None"
    "Wait (Fx plain_opts) = Some \<lparr>ExitCode = 0, Signal = None\<rparr>"
    "Stop_result Background plain_opts = None"
    by (simp_all add: example_defs)
  from Run_resolve [OF a] Run_resolve [OF b] a b show ?thesis by simp
qed

text \<open>
  Claim C1 as stated asks for an exit signal when the code is 0 and an OS signal is
  present. With the signal \<^verbatim>\<open>{ExitCode: 0, Signal: SIGTERM}\<close>, which fx delivers on an
  ordinary interrupt, \<^verbatim>\<open>Run\<close> returns nil.
\<close>

theorem signal_with_code_0_counterexample:
  "Build_succeeds (opts_exiting 0 (Some SIGTERM)) \<and>
   Start_result Background (opts_exiting 0 (Some SIGTERM)) = None \<and>
   Wait (Fx (opts_exiting 0 (Some SIGTERM))) = Some \<lparr>ExitCode = 0, Signal = Some SIGTERM\<rparr> \<and>
   Stop_result Background (opts_exiting 0 (Some SIGTERM)) = None \<and>
   snd (Run Background (opts_exiting 0 (Some SIGTERM))) = Returns None \<and>
   snd (Run Background (opts_exiting 0 (Some SIGTERM))) \<noteq> Returns (Some (ExitError 0 (Some SIGTERM)))"
  by (simp add: Run_def example_defs)

subsection \<open>Ordering of Start, Wait and Stop\<close>

text \<open>
  Claim C2. When Start succeeded and Wait returns a termination signal, whatever
  its value, the trace of \<^verbatim>\<open>Run\<close> holds exactly one call of Stop, on the sub-context
  bounded by the stop timeout; Wait is in the trace and no call of Stop precedes it.
  When the channel of Wait never delivers, \<^verbatim>\<open>Run\<close> stays blocked in the receive and
  Stop is not reached (lemma \<open>Run_from_build\<close>).
\<close>

theorem Stop_once_after_Wait:
  assumes "Build_succeeds fxOpts" "Start_result ctx fxOpts = None" "Wait (Fx fxOpts) = Some sig"
  shows "length (filter is_CallStop (fst (Run ctx fxOpts))) = 1 \<and>
         filter is_CallStop (fst (Run ctx fxOpts)) = [CallStop (stopCtx ctx fxOpts)] \<and>
         CallWait \<in> set (fst (Run ctx fxOpts)) \<and>
         filter is_CallStop (takeWhile (\<lambda>e. e \<noteq> CallWait) (fst (Run ctx fxOpts))) = []"
proof -
  have w: "takeWhile (\<lambda>e. e \<noteq> CallWait) (hooks_trace fxOpts @ ys)
      = hooks_trace fxOpts @ takeWhile (\<lambda>e. e \<noteq> CallWait) ys" for ys
    using hooks_trace_no_Wait [of fxOpts] by (intro takeWhile_append2) auto
  show ?thesis
    by (simp add: Run_past_Wait [OF assms] hooks_trace_no_Stop w)
qed

theorem Stop_once_after_Wait_witness:
  "Build_succeeds (opts_exiting 7 None) \<and>
   Start_result Background (opts_exiting 7 None) = None \<and>
   Wait (Fx (opts_exiting 7 None)) = Some \<lparr>ExitCode = 7, Signal = None\<rparr> \<and>
   length (filter is_CallStop (fst (Run Background (opts_exiting 7 None)))) = 1 \<and>
   CallWait \<in> set (fst (Run Background (opts_exiting 7 None))) \<and>
   filter is_CallStop
     (takeWhile (\<lambda>e. e \<noteq> CallWait) (fst (Run Background (opts_exiting 7 None)))) = []"
proof -
  let ?a = "opts_exiting 7 None"
  have a: "Build_succeeds ?a" "Start_result Background ?a = None"
    "Wait (Fx ?a) = Some \<lparr>ExitCode = 7, Signal = None\<rparr>"
    by (simp_all add: example_defs)
  from Stop_once_after_Wait [OF a] a show ?thesis by simp
qed

text \<open>
  Claim C3. When Wait returned a termination signal with a nonzero exit code and
  Stop then fails, \<^verbatim>\<open>Run\<close> returns the error of Stop wrapped with the prefix
  \<^verbatim>\<open>fx.Stop: \<close>, and not the \<^verbatim>\<open>ExitError\<close> of the signal.
\<close>

theorem Stop_failure_precedes_signal:
  assumes "Build_succeeds fxOpts" "Start_result ctx fxOpts = None"
    "Wait (Fx fxOpts) = Some sig" "ExitCode sig \<noteq> 0" "Stop_result ctx fxOpts = Some cause"
  shows "snd (Run ctx fxOpts) = Returns (Some (Errorf ''fx.Stop: '' cause)) \<and>
         snd (Run ctx fxOpts) \<noteq> Returns (Some (ExitError (ExitCode sig) (Signal sig)))"
  using Run_past_Wait [OF assms(1-3)] assms(5) by simp

theorem Stop_failure_precedes_signal_witness:
  "Build_succeeds failing_Stop_opts \<and>
   Start_result Background failing_Stop_opts = None \<and>
   Wait (Fx failing_Stop_opts) = Some \<lparr>ExitCode = 7, Signal = None\<rparr> \<and>
   ExitCode \<lparr>ExitCode = 7, Signal = None\<rparr> \<noteq> 0 \<and>
   Stop_result Background failing_Stop_opts = Some (Other ''context deadline exceeded'') \<and>
   snd (Run Background failing_Stop_opts) =
     Returns (Some (Errorf ''fx.Stop: '' (Other ''context deadline exceeded''))) \<and>
   snd (Run Background failing_Stop_opts) \<noteq> Returns (Some (ExitError 7 None))"
proof -
  let ?a = failing_Stop_opts
  have a: "Build_succeeds ?a" "Start_result Background ?a = None"
    "Wait (Fx ?a) = Some \<lparr>ExitCode = 7, Signal = None\<rparr>"
    "ExitCode \<lparr>ExitCode = 7, Signal = None\<rparr> \<noteq> 0"
    "Stop_result Background ?a = Some (Other ''context deadline exceeded'')"
    by (simp_all add: example_defs2)
  from Stop_failure_precedes_signal [OF a] a show ?thesis by simp
qed

text \<open>
  Claim C4. When the build succeeds and Start fails, for whatever cause (a start
  timeout that is exceeded is one), \<^verbatim>\<open>Run\<close> returns the cause wrapped with the prefix
  \<^verbatim>\<open>fx.Start: \<close>, and neither Wait nor Stop is called.
\<close>

theorem Start_failure_skips_Wait_and_Stop:
  assumes "Build_succeeds fxOpts" "Start_result ctx fxOpts = Some cause"
  shows "snd (Run ctx fxOpts) = Returns (Some (Errorf ''fx.Start: '' cause)) \<and>
         CallWait \<notin> set (fst (Run ctx fxOpts)) \<and>
         filter is_CallStop (fst (Run ctx fxOpts)) = []"
  by (simp add: Run_Start_fails [OF assms] hooks_trace_no_Stop hooks_trace_no_Wait)

theorem Start_failure_skips_Wait_and_Stop_witness:
  "Build_succeeds failing_Start_opts \<and>
   Start_result Background failing_Start_opts = Some (Other ''context deadline exceeded'') \<and>
   snd (Run Background failing_Start_opts) =
     Returns (Some (Errorf ''fx.Start: '' (Other ''context deadline exceeded''))) \<and>
   CallWait \<notin> set (fst (Run Background failing_Start_opts)) \<and>
   filter is_CallStop (fst (Run Background failing_Start_opts)) = []"
proof -
  let ?a = failing_Start_opts
  have a: "Build_succeeds ?a"
    "Start_result Background ?a = Some (Other ''context deadline exceeded'')"
    by (simp_all add: example_defs2)
  from Start_failure_skips_Wait_and_Stop [OF a] a show ?thesis by simp
qed

subsection \<open>The optional hooks\<close>

text \<open>
  Claim C5. When \<^verbatim>\<open>SetDefaults\<close> fails, \<^verbatim>\<open>Run\<close> returns the cause wrapped with the
  prefix \<^verbatim>\<open>set defaults: \<close>, and the one call of \<^verbatim>\<open>SetDefaults\<close> is the only call it
  has made: no Validate, Build, Start, Wait or Stop, and no second attempt.
\<close>

theorem SetDefaults_failure_returns_at_once:
  assumes "SetDefaults fxOpts = Some (Some cause)"
  shows "Run ctx fxOpts = ([CallSetDefaults], Returns (Some (Errorf ''set defaults: '' cause)))"
  using assms by (simp add: Run_def)

theorem SetDefaults_failure_returns_at_once_witness:
  "SetDefaults (plain_opts\<lparr>SetDefaults := Some (Some (Other ''no region''))\<rparr>)
     = Some (Some (Other ''no region'')) \<and>
   Run Background (plain_opts\<lparr>SetDefaults := Some (Some (Other ''no region''))\<rparr>)
     = ([CallSetDefaults], Returns (Some (Errorf ''set defaults: '' (Other ''no region''))))"
proof -
  let ?a = "plain_opts\<lparr>SetDefaults := Some (Some (Other ''no region''))\<rparr>"
  have a: "SetDefaults ?a = Some (Some (Other ''no region''))" by simp
  from SetDefaults_failure_returns_at_once [OF a] a show ?thesis by simp
qed

text \<open>
  Claim C6. For an application with neither optional hook, the first call of
  \<^verbatim>\<open>Run\<close> is the build (\<^verbatim>\<open>fx.New\<close>), no hook is called, the result is never an error
  tagged with one of the two hook phases, and trace and result are those of the same
  application with both hooks present and successful, the two hook calls apart.
\<close>

theorem absent_hooks_are_skipped:
  assumes "SetDefaults fxOpts = None" "Validate fxOpts = None"
  shows "hd (fst (Run ctx fxOpts)) = CallNew \<and>
         CallSetDefaults \<notin> set (fst (Run ctx fxOpts)) \<and>
         CallValidate \<notin> set (fst (Run ctx fxOpts)) \<and>
         snd (Run ctx fxOpts) \<noteq> Returns (Some (Errorf ''set defaults: '' e)) \<and>
         snd (Run ctx fxOpts) \<noteq> Returns (Some (Errorf ''validate: '' e)) \<and>
         Run ctx (fxOpts\<lparr>SetDefaults := Some None, Validate := Some None\<rparr>) =
           (CallSetDefaults # CallValidate # fst (Run ctx fxOpts), snd (Run ctx fxOpts))"
  using assms by (simp add: Run_def Let_def split: option.splits)

theorem absent_hooks_are_skipped_witness:
  "SetDefaults plain_opts = None \<and> Validate plain_opts = None \<and>
   hd (fst (Run Background plain_opts)) = CallNew \<and>
   CallSetDefaults \<notin> set (fst (Run Background plain_opts)) \<and>
   CallValidate \<notin> set (fst (Run Background plain_opts)) \<and>
   snd (Run Background plain_opts) = Returns None"
proof -
  have a: "SetDefaults plain_opts = None" "Validate plain_opts = None"
    by (simp_all add: plain_opts_def)
  have r: "snd (Run Background plain_opts) = Returns None"
    by (simp add: Run_def example_defs)
  from absent_hooks_are_skipped [OF a, of Background] a r show ?thesis by simp
qed

subsection \<open>Exit translation\<close>

text \<open>
  Claim C7. When Stop succeeds after a termination signal with exit code 3,
  \<^verbatim>\<open>Run\<close> returns \<^verbatim>\<open>ExitError\<close> with code 3 and the signal's OS signal, and
  \<^verbatim>\<open>RunAndExit\<close> logs the code and signal and calls \<^verbatim>\<open>os.Exit(3)\<close>.
\<close>

theorem code_3_exits_with_3:
  assumes "Build_succeeds fxOpts" "Start_result ctx fxOpts = None"
    "Wait (Fx fxOpts) = Some sig" "ExitCode sig = 3" "Stop_result ctx fxOpts = None"
  shows "snd (Run ctx fxOpts) = Returns (Some (ExitError 3 (Signal sig))) \<and>
         snd (RunAndExit ctx fxOpts) = Exit [exit_message 3 (Signal sig)] 3"
  using Run_past_Wait [OF assms(1-3)] assms(4,5) by (simp add: RunAndExit_of_Run)

theorem code_3_exits_with_3_witness:
  "Build_succeeds (opts_exiting 3 (Some SIGTERM)) \<and>
   Start_result Background (opts_exiting 3 (Some SIGTERM)) = None \<and>
   Wait (Fx (opts_exiting 3 (Some SIGTERM))) = Some \<lparr>ExitCode = 3, Signal = Some SIGTERM\<rparr> \<and>
   ExitCode \<lparr>ExitCode = 3, Signal = Some SIGTERM\<rparr> = 3 \<and>
   Stop_result Background (opts_exiting 3 (Some SIGTERM)) = None \<and>
   snd (Run Background (opts_exiting 3 (Some SIGTERM))) = Returns (Some (ExitError 3 (Some SIGTERM))) \<and>
   snd (RunAndExit Background (opts_exiting 3 (Some SIGTERM)))
     = Exit [''exit: code=3 signal=terminated''] 3"
proof -
  let ?a = "opts_exiting 3 (Some SIGTERM)"
  have a: "Build_succeeds ?a" "Start_result Background ?a = None"
    "Wait (Fx ?a) = Some \<lparr>ExitCode = 3, Signal = Some SIGTERM\<rparr>"
    "ExitCode \<lparr>ExitCode = 3, Signal = Some SIGTERM\<rparr> = 3"
    "Stop_result Background ?a = None"
    by (simp_all add: example_defs)
  have m: "exit_message 3 (Some SIGTERM) = ''exit: code=3 signal=terminated''"
    by (simp add: message_defs SIGTERM_def)
  from code_3_exits_with_3 [OF a] a m show ?thesis by simp
qed

text \<open>
  Claim C9, as amended. When \<^verbatim>\<open>Run\<close> returns a phase error whose cause chain holds
  no \<^verbatim>\<open>ExitError\<close>, the tag is one of the five phase prefixes and \<^verbatim>\<open>RunAndExit\<close>
  logs the tag followed by the cause's message and exits with status 1
  (\<^verbatim>\<open>log.Fatal\<close>). Status 1 is not set apart from the codes an application reports.
\<close>

theorem phase_error_is_fatal:
  assumes "snd (Run ctx fxOpts) = Returns (Some (Errorf tag cause))" "errors_As cause = None"
  shows "tag \<in> set phase_tags \<and> snd (RunAndExit ctx fxOpts) = Exit [tag @ Error cause] 1"
  using Run_tag [OF assms(1)] assms by (simp add: RunAndExit_of_Run)

theorem phase_error_is_fatal_witness:
  "snd (Run Background failing_Start_opts)
     = Returns (Some (Errorf ''fx.Start: '' (Other ''context deadline exceeded''))) \<and>
   errors_As (Other ''context deadline exceeded'') = None \<and>
   ''fx.Start: '' \<in> set phase_tags \<and>
   snd (RunAndExit Background failing_Start_opts)
     = Exit [''fx.Start: context deadline exceeded''] 1"
proof -
  have a: "snd (Run Background failing_Start_opts)
     = Returns (Some (Errorf ''fx.Start: '' (Other ''context deadline exceeded'')))"
    by (simp add: Run_def example_defs2)
  have b: "errors_As (Other ''context deadline exceeded'') = None" by simp
  from phase_error_is_fatal [OF a b] a b show ?thesis by simp
qed

text \<open>
  Claim C9 as stated fails twice. A Validate hook that returns \<^verbatim>\<open>ExitError{3}\<close>
  gives a phase error that is not treated as fatal: the process exits with 3 and the
  logged line carries no phase tag. And the fatal status 1 of a failed Start is also
  the status of an application that reports exit code 1.
\<close>

theorem fatal_status_not_reserved_counterexample:
  "snd (Run Background (plain_opts\<lparr>Validate := Some (Some (ExitError 3 None))\<rparr>))
     = Returns (Some (Errorf ''validate: '' (ExitError 3 None))) \<and>
   snd (RunAndExit Background (plain_opts\<lparr>Validate := Some (Some (ExitError 3 None))\<rparr>))
     = Exit [''exit: code=3 signal=%!s(<nil>)''] 3 \<and>
   snd (RunAndExit Background failing_Start_opts)
     = Exit [''fx.Start: context deadline exceeded''] 1 \<and>
   snd (Run Background (opts_exiting 1 None)) = Returns (Some (ExitError 1 None)) \<and>
   snd (RunAndExit Background (opts_exiting 1 None))
     = Exit [''exit: code=1 signal=%!s(<nil>)''] 1"
  by (simp add: RunAndExit_def Run_def example_defs2 message_defs)

text \<open>
  \<^verbatim>\<open>errors.As\<close> reaches an \<^verbatim>\<open>ExitError\<close> through any number of \<^verbatim>\<open>%w\<close> wrappings, and
  the chains it matches are exactly those that end in an \<^verbatim>\<open>ExitError\<close>.
\<close>

lemma errors_As_through_wrapping:
  "errors_As (foldr Errorf ps (ExitError code signal)) = Some (code, signal)"
  by (induction ps) simp_all

lemma errors_As_Some_iff:
  "errors_As e = Some (code, signal) \<longleftrightarrow> (\<exists>ps. e = foldr Errorf ps (ExitError code signal))"
proof
  show "errors_As e = Some (code, signal) \<Longrightarrow> \<exists>ps. e = foldr Errorf ps (ExitError code signal)"
  proof (induction e)
    case (ExitError c s)
    then have "ExitError c s = foldr Errorf [] (ExitError code signal)" by simp
    then show ?case by blast
  next
    case (Errorf p e)
    then obtain ps where "e = foldr Errorf ps (ExitError code signal)" by auto
    then have "Errorf p e = foldr Errorf (p # ps) (ExitError code signal)" by simp
    then show ?case by blast
  next
    case (Other m)
    then show ?case by simp
  qed
next
  show "\<exists>ps. e = foldr Errorf ps (ExitError code signal) \<Longrightarrow> errors_As e = Some (code, signal)"
    by (auto simp: errors_As_through_wrapping)
qed

text \<open>
  Claim C10. When \<^verbatim>\<open>Run\<close> returns a phase error whose cause is an \<^verbatim>\<open>ExitError\<close>
  under any number of \<^verbatim>\<open>%w\<close> wrappings (none, when a hook returns the \<^verbatim>\<open>ExitError\<close>
  itself), \<^verbatim>\<open>errors.As\<close> finds it through the wrapping of the cause and through the
  phase tag of \<^verbatim>\<open>Run\<close>, and \<^verbatim>\<open>RunAndExit\<close> logs its code and signal and calls
  \<^verbatim>\<open>os.Exit\<close> with its code: the exit-signal path, not \<^verbatim>\<open>log.Fatal\<close>.
\<close>

theorem wrapped_ExitError_decides_exit:
  assumes "snd (Run ctx fxOpts) =
    Returns (Some (Errorf tag (foldr Errorf ps (ExitError code signal))))"
  shows "tag \<in> set phase_tags \<and>
         snd (RunAndExit ctx fxOpts) = Exit [exit_message code signal] code"
  using Run_tag [OF assms] assms
  by (simp add: RunAndExit_of_Run errors_As_through_wrapping)

theorem wrapped_ExitError_decides_exit_witness:
  "snd (Run Background (plain_opts\<lparr>Validate := Some (Some (ExitError 0 None))\<rparr>))
     = Returns (Some (Errorf ''validate: '' (foldr Errorf [] (ExitError 0 None)))) \<and>
   snd (RunAndExit Background (plain_opts\<lparr>Validate := Some (Some (ExitError 0 None))\<rparr>))
     = Exit [''exit: code=0 signal=%!s(<nil>)''] 0 \<and>
   snd (Run Background ExitError_Stop_opts)
     = Returns (Some (Errorf ''fx.Stop: ''
         (foldr Errorf [''drain: ''] (ExitError 9 (Some SIGTERM))))) \<and>
   snd (RunAndExit Background ExitError_Stop_opts)
     = Exit [''exit: code=9 signal=terminated''] 9"
proof -
  let ?a = "plain_opts\<lparr>Validate := Some (Some (ExitError 0 None))\<rparr>"
  have a: "snd (Run Background ?a)
     = Returns (Some (Errorf ''validate: '' (foldr Errorf [] (ExitError 0 None))))"
    by (simp add: Run_def plain_opts_def)
  have b: "snd (Run Background ExitError_Stop_opts)
     = Returns (Some (Errorf ''fx.Stop: ''
         (foldr Errorf [''drain: ''] (ExitError 9 (Some SIGTERM)))))"
    by (simp add: Run_def ExitError_Stop_opts_def plain_opts_def clean_App_def)
  have m: "exit_message 0 None = ''exit: code=0 signal=%!s(<nil>)''"
    "exit_message 9 (Some SIGTERM) = ''exit: code=9 signal=terminated''"
    by (simp_all add: message_defs SIGTERM_def)
  from wrapped_ExitError_decides_exit [OF a] wrapped_ExitError_decides_exit [OF b] a b m
  show ?thesis by simp
qed

subsection \<open>Release of the bounded sub-contexts\<close>

text \<open>
  Claim C8, as amended. Both cancel functions are deferred, so they run when
  \<^verbatim>\<open>Run\<close> returns. After a successful build the trace is: the hook calls, the build,
  the creation of the start sub-context and the call of Start; then, when Start fails,
  the start cancel at once; when Start succeeds and Wait returns, the call of Wait,
  the creation of the stop sub-context, the call of Stop, the stop cancel right after
  Stop whatever Stop returned, and the start cancel last. While \<^verbatim>\<open>Run\<close> is blocked in
  Wait no cancel function has run. (The expiry of the timers themselves is not part of
  the model.)
\<close>

theorem cancel_functions_run_at_return:
  assumes "Build_succeeds fxOpts"
  shows "fst (Run ctx fxOpts) =
    hooks_trace fxOpts @ [CallNew, StartCtxCreated, CallStart (startCtx ctx fxOpts)] @
    (case Start_result ctx fxOpts of
       Some err \<Rightarrow> [StartCancel]
     | None \<Rightarrow>
         (case Wait (Fx fxOpts) of
            None \<Rightarrow> [CallWait]
          | Some sig \<Rightarrow>
              [CallWait, StopCtxCreated, CallStop (stopCtx ctx fxOpts), StopCancel, StartCancel]))"
  by (simp add: Run_from_build [OF assms] split: option.splits)

theorem cancel_functions_run_at_return_witness:
  "Build_succeeds failing_Start_opts \<and>
   fst (Run Background failing_Start_opts) =
     [CallNew, StartCtxCreated, CallStart (WithTimeout Background 15000000000), StartCancel] \<and>
   Build_succeeds failing_Stop_opts \<and>
   fst (Run Background failing_Stop_opts) =
     [CallNew, StartCtxCreated, CallStart (WithTimeout Background 15000000000), CallWait,
      StopCtxCreated, CallStop (WithTimeout Background 15000000000), StopCancel, StartCancel]"
proof -
  have a: "Build_succeeds failing_Start_opts" and b: "Build_succeeds failing_Stop_opts"
    by (simp_all add: example_defs2)
  from cancel_functions_run_at_return [OF a, of Background]
    cancel_functions_run_at_return [OF b, of Background] a b
  show ?thesis by (simp add: example_defs2)
qed

text \<open>
  Claim C8 as stated has the start sub-context released before Wait begins. On the
  success path of the plain application the start cancel is the last event, after
  Wait and Stop, and none precedes Wait.
\<close>

theorem start_context_held_during_Wait_counterexample:
  "Build_succeeds plain_opts \<and>
   Start_result Background plain_opts = None \<and>
   fst (Run Background plain_opts) =
     [CallNew, StartCtxCreated, CallStart (WithTimeout Background 15000000000), CallWait,
      StopCtxCreated, CallStop (WithTimeout Background 15000000000), StopCancel, StartCancel] \<and>
   StartCancel \<notin> set (takeWhile (\<lambda>e. e \<noteq> CallWait) (fst (Run Background plain_opts)))"
  by (simp add: Run_def example_defs)

end
